theory Spec2Isabelle
  imports Main "HOL-Library.Word"
begin

section \<open>The stub of the meeting core C ABI\<close>

text \<open>
  The development embeds \<^verbatim>\<open>meeting_core_ffi_stub.c\<close>, the translation unit that is
  compiled when \<^verbatim>\<open>MEETING_USE_RUST_FFI\<close> is not defined. Its five exported functions
  work on three pieces of state: the blocks handed out by \<^verbatim>\<open>malloc\<close>, and the two
  file-scope variables \<^verbatim>\<open>g_callback\<close> and \<^verbatim>\<open>g_user_data\<close>.
\<close>

subsection \<open>Pointers and memory blocks\<close>

text \<open>
  A pointer is an address; address 0 is the null pointer. Function pointers
  (\<^verbatim>\<open>ma_event_callback\<close>) and \<^verbatim>\<open>void*\<close> values are addresses too: the stub only
  stores and compares them.
\<close>

type_synonym ptr = nat

definition NULL :: ptr where
  "NULL = 0"

text \<open>\<^verbatim>\<open>typedef struct { int placeholder; } ma_runtime_stub;\<close>\<close>

record ma_runtime_stub =
  placeholder :: "32 word"

definition sizeof_ma_runtime_stub :: nat where
  "sizeof_ma_runtime_stub = 4"

text \<open>
  What a live block holds: nothing yet (\<open>Raw n\<close>, the \<open>n\<close> bytes \<^verbatim>\<open>malloc\<close> has just
  returned, of indeterminate content), a stub structure, or bytes written by
  \<^verbatim>\<open>memcpy\<close>.
\<close>

datatype block = Raw nat | Runtime ma_runtime_stub | Chars "char list"

text \<open>
  What the C standard leaves undefined is a fault of the model: releasing an address
  that is not a live block, and writing outside one.
\<close>

datatype fault = Invalid_free | Invalid_write

text \<open>
  The program state. \<open>allocator\<close> is the environment's side of \<^verbatim>\<open>malloc\<close>: the
  addresses it is going to answer with, in order, \<open>NULL\<close> standing for a refusal.
  \<open>events\<close> is the trace of calls made through the registered callback, each with the
  callback's address, the event text and the user data passed.
\<close>

record state =
  heap :: "ptr \<rightharpoonup> block"
  g_callback :: ptr
  g_user_data :: ptr
  allocator :: "ptr list"
  events :: "(ptr \<times> string \<times> ptr) list"

subsection \<open>The C library functions the stub calls\<close>

text \<open>
  \<^verbatim>\<open>malloc\<close> returns either the null pointer or the address of a block that is
  disjoint from every live one: an answer of the environment that is null or the
  address of a live block is a refusal, and so is an exhausted list of answers.
\<close>

definition malloc :: "nat \<Rightarrow> state \<Rightarrow> ptr \<times> state" where
  "malloc n s =
     (case allocator s of
        [] \<Rightarrow> (NULL, s)
      | a # rest \<Rightarrow>
          if a = NULL \<or> heap s a \<noteq> None
          then (NULL, s\<lparr>allocator := rest\<rparr>)
          else (a, s\<lparr>allocator := rest, heap := (heap s)(a \<mapsto> Raw n)\<rparr>))"

definition free :: "ptr \<Rightarrow> state \<Rightarrow> fault + state" where
  "free p s =
     (if p = NULL then Inr s
      else if heap s p = None then Inl Invalid_free
      else Inr (s\<lparr>heap := (heap s)(p := None)\<rparr>))"

definition NUL :: char where
  "NUL = CHR 0x00"

definition strlen :: "char list \<Rightarrow> nat" where
  "strlen bs = length (takeWhile (\<lambda>c. c \<noteq> NUL) bs)"

text \<open>
  \<^verbatim>\<open>memcpy(dst, src, n)\<close> where \<open>dst\<close> is the start of a block and \<open>src\<close> the bytes
  of the source object. Bytes of the block beyond the \<open>n\<close> copied ones stay
  indeterminate and are not recorded.
\<close>

definition memcpy :: "ptr \<Rightarrow> char list \<Rightarrow> nat \<Rightarrow> state \<Rightarrow> fault + state" where
  "memcpy dst src n s =
     (case heap s dst of
        Some (Raw m) \<Rightarrow>
          if n \<le> m \<and> n \<le> length src
          then Inr (s\<lparr>heap := (heap s)(dst \<mapsto> Chars (take n src))\<rparr>)
          else Inl Invalid_write
      | Some (Chars bs) \<Rightarrow>
          if n \<le> length bs \<and> n \<le> length src
          then Inr (s\<lparr>heap := (heap s)(dst \<mapsto> Chars (take n src @ drop n bs))\<rparr>)
          else Inl Invalid_write
      | _ \<Rightarrow> Inl Invalid_write)"

text \<open>The assignment \<^verbatim>\<open>runtime->placeholder = v\<close>.\<close>

definition store_placeholder :: "ptr \<Rightarrow> 32 word \<Rightarrow> state \<Rightarrow> fault + state" where
  "store_placeholder runtime v s =
     (case heap s runtime of
        Some (Raw m) \<Rightarrow>
          if sizeof_ma_runtime_stub \<le> m
          then Inr (s\<lparr>heap := (heap s)(runtime \<mapsto> Runtime \<lparr>placeholder = v\<rparr>)\<rparr>)
          else Inl Invalid_write
      | Some (Runtime r) \<Rightarrow>
          Inr (s\<lparr>heap := (heap s)(runtime \<mapsto> Runtime (r\<lparr>placeholder := v\<rparr>))\<rparr>)
      | _ \<Rightarrow> Inl Invalid_write)"

text \<open>The text of the C string that starts a block, up to its terminator.\<close>

definition c_string_at :: "state \<Rightarrow> ptr \<Rightarrow> string option" where
  "c_string_at s p =
     (case heap s p of
        Some (Chars bs) \<Rightarrow>
          if NUL \<in> set bs then Some (takeWhile (\<lambda>c. c \<noteq> NUL) bs) else None
      | _ \<Rightarrow> None)"

subsection \<open>The exported functions\<close>

text \<open>
  \<^verbatim>\<open>void* ma_runtime_new(const char* config_json)\<close>. The configuration text is cast to
  void and never read.
\<close>

definition ma_runtime_new :: "string \<Rightarrow> state \<Rightarrow> fault + (ptr \<times> state)" where
  "ma_runtime_new config_json s =
     (case malloc sizeof_ma_runtime_stub s of
        (runtime, s1) \<Rightarrow>
          if runtime \<noteq> NULL
          then (case store_placeholder runtime 1 s1 of
                  Inl f \<Rightarrow> Inl f
                | Inr s2 \<Rightarrow> Inr (runtime, s2))
          else Inr (runtime, s1))"

text \<open>\<^verbatim>\<open>void ma_runtime_free(void* runtime_handle)\<close>\<close>

definition ma_runtime_free :: "ptr \<Rightarrow> state \<Rightarrow> fault + state" where
  "ma_runtime_free runtime_handle s =
     (if runtime_handle \<noteq> NULL then free runtime_handle s else Inr s)"

text \<open>
  The string literal of \<^verbatim>\<open>ma_invoke_json\<close>, as the array of bytes the compiler lays
  out: the characters and the terminator.
\<close>

definition payload :: "char list" where
  \<open>payload =
     ''{"ok":false,"error":{"code":"ffi_stub","message":"Linked to local FFI stub. Replace with Rust libmeeting_core_ffi for production."}}''
     @ [NUL]\<close>

text \<open>
  \<^verbatim>\<open>char* ma_invoke_json(void* runtime_handle, const char* request_json)\<close>. Both
  arguments are cast to void.
\<close>

definition ma_invoke_json :: "ptr \<Rightarrow> string \<Rightarrow> state \<Rightarrow> fault + (ptr \<times> state)" where
  "ma_invoke_json runtime_handle request_json s =
     (let len = strlen payload in
      case malloc (len + 1) s of
        (out, s1) \<Rightarrow>
          if out = NULL then Inr (NULL, s1)
          else (case memcpy out payload (len + 1) s1 of
                  Inl f \<Rightarrow> Inl f
                | Inr s2 \<Rightarrow> Inr (out, s2)))"

text \<open>
  \<^verbatim>\<open>void ma_set_event_callback(void* runtime_handle, ma_event_callback callback,
  void* user_data)\<close>: two assignments to the file-scope variables.
\<close>

definition ma_set_event_callback :: "ptr \<Rightarrow> ptr \<Rightarrow> ptr \<Rightarrow> state \<Rightarrow> state" where
  "ma_set_event_callback runtime_handle callback user_data s =
     s\<lparr>g_callback := callback, g_user_data := user_data\<rparr>"

text \<open>\<^verbatim>\<open>void ma_free_c_string(char* ptr)\<close>\<close>

definition ma_free_c_string :: "ptr \<Rightarrow> state \<Rightarrow> fault + state" where
  "ma_free_c_string p s = (if p \<noteq> NULL then free p s else Inr s)"

text \<open>
  The state at program start: no live block, both file-scope variables initialised to
  \<^verbatim>\<open>NULL\<close>, nothing delivered, and the allocator's answers as given.
\<close>

definition initial_state :: "ptr list \<Rightarrow> state" where
  "initial_state answers =
     \<lparr>heap = Map.empty, g_callback = NULL, g_user_data = NULL,
      allocator = answers, events = []\<rparr>"

section \<open>The response envelope the specification asks for\<close>

text \<open>
  The definitions of this section follow the specification, not the source: JSON
  values, their compact serialisation, and the minimum schema of a response envelope,
  \<^verbatim>\<open>{"ok": bool, "error": {"code": string, "message": string} | absent}\<close>, where
  \<^verbatim>\<open>error\<close> is present exactly when \<^verbatim>\<open>ok\<close> is false. A text is a well-formed
  envelope when it is the serialisation of a JSON value that meets the schema.
\<close>

datatype json =
    JNull
  | JBool bool
  | JNumber int
  | JString string
  | JArray "json list"
  | JObject "(string \<times> json) list"

definition hex_digit :: "nat \<Rightarrow> char" where
  "hex_digit n = (''0123456789abcdef'') ! (n mod 16)"

definition escape_char :: "char \<Rightarrow> string" where
  \<open>escape_char c =
     (if c = CHR ''"'' then [CHR 0x5C, CHR ''"'']
      else if c = CHR 0x5C then [CHR 0x5C, CHR 0x5C]
      else if of_char c < (32::nat)
      then [CHR 0x5C, CHR ''u'', CHR ''0'', CHR ''0'',
            hex_digit (of_char c div 16), hex_digit (of_char c)]
      else [c])\<close>

definition render_string :: "string \<Rightarrow> string" where
  \<open>render_string t = [CHR ''"''] @ concat (map escape_char t) @ [CHR ''"'']\<close>

function render_nat :: "nat \<Rightarrow> string" where
  "render_nat n =
     (if n < 10 then [char_of (48 + n)]
      else render_nat (n div 10) @ [char_of (48 + n mod 10)])"
  by pat_completeness auto
termination
  by (relation "measure id") auto

definition render_int :: "int \<Rightarrow> string" where
  "render_int i = (if i < 0 then CHR ''-'' # render_nat (nat (- i)) else render_nat (nat i))"

fun separate :: "string \<Rightarrow> string list \<Rightarrow> string" where
  "separate sep [] = []"
| "separate sep [x] = x"
| "separate sep (x # y # ys) = x @ sep @ separate sep (y # ys)"

fun render :: "json \<Rightarrow> string" where
  "render JNull = ''null''"
| "render (JBool b) = (if b then ''true'' else ''false'')"
| "render (JNumber i) = render_int i"
| "render (JString t) = render_string t"
| "render (JArray vs) = ''['' @ separate '','' (map render vs) @ '']''"
| "render (JObject kvs) =
     ''{'' @ separate '','' (map (\<lambda>(k, v). render_string k @ '':'' @ render v) kvs) @ ''}''"


fun field :: "string \<Rightarrow> json \<Rightarrow> json option" where
  "field k (JObject kvs) = map_of kvs k"
| "field k _ = None"

definition spec_error_object :: "json \<Rightarrow> bool" where
  "spec_error_object e =
     (case (field ''code'' e, field ''message'' e) of
        (Some (JString c), Some (JString m)) \<Rightarrow> True
      | _ \<Rightarrow> False)"

definition spec_envelope :: "json \<Rightarrow> bool" where
  "spec_envelope j =
     (case field ''ok'' j of
        Some (JBool True) \<Rightarrow> field ''error'' j = None
      | Some (JBool False) \<Rightarrow>
          (case field ''error'' j of Some e \<Rightarrow> spec_error_object e | None \<Rightarrow> False)
      | _ \<Rightarrow> False)"

definition stub_message :: string where
  "stub_message = ''Linked to local FFI stub. Replace with Rust libmeeting_core_ffi for production.''"

section \<open>Callers of the boundary\<close>

text \<open>
  The registration in effect for a handle. \<^verbatim>\<open>ma_runtime_stub\<close> has no field for it:
  the two file-scope variables are the only place a registration is kept, whichever
  handle is asked about.
\<close>

definition registration :: "state \<Rightarrow> ptr \<Rightarrow> ptr \<times> ptr" where
  "registration s runtime_handle = (g_callback s, g_user_data s)"

text \<open>A handle is live when it is the address of a block that holds a stub structure.\<close>

definition is_live_runtime :: "state \<Rightarrow> ptr \<Rightarrow> bool" where
  "is_live_runtime s runtime_handle =
     (case heap s runtime_handle of Some (Runtime r) \<Rightarrow> True | _ \<Rightarrow> False)"

text \<open>
  A host program is a sequence of calls of the five exported functions, with any
  arguments. A run stops at the first fault, after which C promises nothing.
\<close>

datatype call =
    Create string
  | Destroy ptr
  | Invoke ptr string
  | Set_event_callback ptr ptr ptr
  | Release_text ptr

fun step :: "call \<Rightarrow> state \<Rightarrow> fault + state" where
  "step (Create config_json) s = map_sum id snd (ma_runtime_new config_json s)"
| "step (Destroy runtime_handle) s = ma_runtime_free runtime_handle s"
| "step (Invoke runtime_handle request_json) s =
     map_sum id snd (ma_invoke_json runtime_handle request_json s)"
| "step (Set_event_callback runtime_handle callback user_data) s =
     Inr (ma_set_event_callback runtime_handle callback user_data s)"
| "step (Release_text p) s = ma_free_c_string p s"

fun run :: "call list \<Rightarrow> state \<Rightarrow> fault + state" where
  "run [] s = Inr s"
| "run (c # cs) s = (case step c s of Inl f \<Rightarrow> Inl f | Inr s' \<Rightarrow> run cs s')"

text \<open>
  Two states used as concrete inputs below: two runtimes created at addresses 16 and
  32, and one runtime at 16 with a callback registered.
\<close>

definition two_runtimes :: state where
  "two_runtimes =
     \<lparr>heap = [16 \<mapsto> Runtime \<lparr>placeholder = 1\<rparr>, 32 \<mapsto> Runtime \<lparr>placeholder = 1\<rparr>],
      g_callback = NULL, g_user_data = NULL, allocator = [], events = []\<rparr>"

definition registered_runtime :: "ptr list \<Rightarrow> state" where
  "registered_runtime answers =
     \<lparr>heap = [16 \<mapsto> Runtime \<lparr>placeholder = 1\<rparr>],
      g_callback = 4096, g_user_data = 8192, allocator = answers, events = []\<rparr>"

text \<open>
  A whole session of a host: create a runtime, register a callback, send a request,
  release the response, clear the registration, destroy the runtime.
\<close>

definition host_session :: "call list" where
  "host_session =
     [Create ''{}'', Set_event_callback 16 4096 8192, Invoke 16 ''{}'',
      Release_text 64, Set_event_callback 16 NULL NULL, Destroy 16]"

section \<open>Facts about the library calls and the canned payload\<close>

lemma strlen_payload: "strlen payload = 132"
  by (simp add: strlen_def payload_def NUL_def)

lemma length_payload: "length payload = 133"
  by (simp add: payload_def)

lemma NUL_in_payload: "NUL \<in> set payload"
  by (simp add: payload_def)

lemma payload_text:
  "takeWhile (\<lambda>c. c \<noteq> NUL) payload =
     render (JObject [(''ok'', JBool False),
       (''error'', JObject [(''code'', JString ''ffi_stub''),
                            (''message'', JString stub_message)])])"
  by (simp add: payload_def NUL_def render_string_def escape_char_def stub_message_def)

lemma malloc_result:
  assumes "malloc n s = (p, s')"
  shows "g_callback s' = g_callback s" and "g_user_data s' = g_user_data s"
    and "events s' = events s"
    and "p = NULL \<Longrightarrow> heap s' = heap s"
    and "p \<noteq> NULL \<Longrightarrow> heap s p = None \<and> heap s' = (heap s)(p \<mapsto> Raw n)"
  using assms by (auto simp: malloc_def split: list.splits if_splits)

lemma ma_invoke_json_unfold:
  "ma_invoke_json h req s =
     (case malloc 133 s of
        (out, s1) \<Rightarrow>
          if out = NULL then Inr (NULL, s1)
          else Inr (out, s1\<lparr>heap := (heap s1)(out \<mapsto> Chars payload)\<rparr>))"
proof (cases "malloc 133 s")
  case (Pair out s1)
  show ?thesis
  proof (cases "out = NULL")
    case True
    with Pair show ?thesis by (simp add: ma_invoke_json_def strlen_payload)
  next
    case False
    with malloc_result(5)[OF Pair] have "heap s1 out = Some (Raw 133)" by simp
    with Pair False show ?thesis
      by (simp add: ma_invoke_json_def strlen_payload memcpy_def length_payload)
  qed
qed

lemma c_string_at_payload:
  "c_string_at (s\<lparr>heap := (heap s)(p \<mapsto> Chars payload)\<rparr>) p =
     Some (takeWhile (\<lambda>c. c \<noteq> NUL) payload)"
  by (simp add: c_string_at_def NUL_in_payload)

lemma ma_invoke_json_result:
  assumes "malloc (strlen payload + 1) s = (out, s1)"
  shows "out = NULL \<Longrightarrow> ma_invoke_json h req s = Inr (NULL, s1)"
    and "out \<noteq> NULL \<Longrightarrow>
           ma_invoke_json h req s = Inr (out, s1\<lparr>heap := (heap s1)(out \<mapsto> Chars payload)\<rparr>)"
  using assms by (simp_all add: ma_invoke_json_unfold strlen_payload)

section \<open>The response of the stub\<close>

text \<open>
  C1. For every handle, request text and state, \<^verbatim>\<open>ma_invoke_json\<close> returns without
  fault. Its result is null exactly when its \<^verbatim>\<open>malloc\<close> call returns null; a non-null
  result points to the serialisation of a JSON value that meets the envelope schema.
\<close>

theorem ma_invoke_json_envelope:
  "\<exists>out s'. ma_invoke_json runtime_handle request_json s = Inr (out, s') \<and>
     (out = NULL \<longleftrightarrow> fst (malloc (strlen payload + 1) s) = NULL) \<and>
     (out \<noteq> NULL \<longrightarrow> (\<exists>j. c_string_at s' out = Some (render j) \<and> spec_envelope j))"
proof -
  obtain out s1 where m: "malloc (strlen payload + 1) s = (out, s1)"
    by (cases "malloc (strlen payload + 1) s")
  note null = ma_invoke_json_result(1)[OF m, of runtime_handle request_json]
  note live = ma_invoke_json_result(2)[OF m, of runtime_handle request_json]
  show ?thesis
  proof (cases "out = NULL")
    case True
    with null m show ?thesis by simp
  next
    case False
    let ?j = "JObject [(''ok'', JBool False),
       (''error'', JObject [(''code'', JString ''ffi_stub''),
                            (''message'', JString stub_message)])]"
    have "spec_envelope ?j"
      by (simp add: spec_envelope_def spec_error_object_def)
    moreover have "c_string_at (s1\<lparr>heap := (heap s1)(out \<mapsto> Chars payload)\<rparr>) out = Some (render ?j)"
      by (simp only: c_string_at_payload payload_text)
    ultimately have "\<exists>j. c_string_at (s1\<lparr>heap := (heap s1)(out \<mapsto> Chars payload)\<rparr>) out =
        Some (render j) \<and> spec_envelope j"
      by blast
    with False live m show ?thesis by simp
  qed
qed

theorem ma_invoke_json_envelope_witness:
  "fst (malloc (strlen payload + 1) (initial_state [16])) \<noteq> NULL \<and>
   (\<exists>out s'. ma_invoke_json NULL [] (initial_state [16]) = Inr (out, s') \<and> out \<noteq> NULL \<and>
      (\<exists>j. c_string_at s' out = Some (render j) \<and> spec_envelope j))"
proof -
  have "fst (malloc (strlen payload + 1) (initial_state [16])) \<noteq> NULL"
    by (simp add: malloc_def initial_state_def NULL_def)
  with ma_invoke_json_envelope[of NULL "[]" "initial_state [16]"] show ?thesis
    by auto
qed


text \<open>
  C2. Every non-null response of \<^verbatim>\<open>ma_invoke_json\<close> is the serialisation of an
  envelope that meets the schema, with \<^verbatim>\<open>ok\<close> false and an \<^verbatim>\<open>error\<close> object whose
  \<^verbatim>\<open>code\<close> is the non-empty string \<^verbatim>\<open>ffi_stub\<close> and whose \<^verbatim>\<open>message\<close> is a
  non-empty string.
\<close>

theorem ma_invoke_json_stub_error:
  assumes "ma_invoke_json runtime_handle request_json s = Inr (out, s')"
    and "out \<noteq> NULL"
  shows "\<exists>j e c m. c_string_at s' out = Some (render j) \<and> spec_envelope j \<and>
           field ''ok'' j = Some (JBool False) \<and> field ''error'' j = Some e \<and>
           field ''code'' e = Some (JString c) \<and> c = ''ffi_stub'' \<and> c \<noteq> [] \<and>
           field ''message'' e = Some (JString m) \<and> m \<noteq> []"
proof -
  obtain p s1 where m: "malloc (strlen payload + 1) s = (p, s1)"
    by (cases "malloc (strlen payload + 1) s")
  have "p \<noteq> NULL"
    using ma_invoke_json_result(1)[OF m, of runtime_handle request_json] assms by auto
  from ma_invoke_json_result(2)[OF m this, of runtime_handle request_json] assms(1)
  have out: "out = p" and s': "s' = s1\<lparr>heap := (heap s1)(p \<mapsto> Chars payload)\<rparr>"
    by simp_all
  let ?e = "JObject [(''code'', JString ''ffi_stub''), (''message'', JString stub_message)]"
  let ?j = "JObject [(''ok'', JBool False), (''error'', ?e)]"
  have "c_string_at s' out = Some (render ?j)"
    unfolding out s' by (simp only: c_string_at_payload payload_text)
  moreover have "spec_envelope ?j"
    by (simp add: spec_envelope_def spec_error_object_def)
  moreover have "field ''ok'' ?j = Some (JBool False)" "field ''error'' ?j = Some ?e"
    "field ''code'' ?e = Some (JString ''ffi_stub'')"
    "field ''message'' ?e = Some (JString stub_message)"
    by simp_all
  moreover have "''ffi_stub'' \<noteq> []" "stub_message \<noteq> []"
    by (simp_all add: stub_message_def)
  ultimately show ?thesis by blast
qed

theorem ma_invoke_json_stub_error_witness:
  "ma_invoke_json 16 ''{}'' (registered_runtime [64]) =
     Inr (64, registered_runtime []\<lparr>heap := (heap (registered_runtime []))(64 \<mapsto> Chars payload)\<rparr>) \<and>
   (64::nat) \<noteq> NULL \<and>
   (\<exists>j e c m. c_string_at
        (registered_runtime []\<lparr>heap := (heap (registered_runtime []))(64 \<mapsto> Chars payload)\<rparr>) 64 =
        Some (render j) \<and> spec_envelope j \<and>
      field ''ok'' j = Some (JBool False) \<and> field ''error'' j = Some e \<and>
      field ''code'' e = Some (JString c) \<and> c = ''ffi_stub'' \<and> c \<noteq> [] \<and>
      field ''message'' e = Some (JString m) \<and> m \<noteq> [])"
proof -
  have r: "ma_invoke_json 16 ''{}'' (registered_runtime [64]) =
     Inr (64, registered_runtime []\<lparr>heap := (heap (registered_runtime []))(64 \<mapsto> Chars payload)\<rparr>)"
    by (simp add: ma_invoke_json_unfold malloc_def registered_runtime_def NULL_def)
  have n: "(64::nat) \<noteq> NULL"
    by (simp add: NULL_def)
  from r n ma_invoke_json_stub_error[OF r n] show ?thesis
    by blast
qed

section \<open>Construction\<close>

lemma ma_runtime_new_unfold:
  "ma_runtime_new config_json s =
     (case malloc sizeof_ma_runtime_stub s of
        (runtime, s1) \<Rightarrow>
          if runtime \<noteq> NULL
          then Inr (runtime, s1\<lparr>heap := (heap s1)(runtime \<mapsto> Runtime \<lparr>placeholder = 1\<rparr>)\<rparr>)
          else Inr (runtime, s1))"
proof (cases "malloc sizeof_ma_runtime_stub s")
  case (Pair runtime s1)
  show ?thesis
  proof (cases "runtime = NULL")
    case True
    with Pair show ?thesis by (simp add: ma_runtime_new_def)
  next
    case False
    with malloc_result(5)[OF Pair] have "heap s1 runtime = Some (Raw sizeof_ma_runtime_stub)"
      by simp
    with Pair False show ?thesis
      by (simp add: ma_runtime_new_def store_placeholder_def)
  qed
qed

text \<open>
  C3. Whatever the configuration text, the empty one included, \<^verbatim>\<open>ma_runtime_new\<close>
  returns without fault a non-null handle to a structure whose \<^verbatim>\<open>placeholder\<close> is 1,
  provided its \<^verbatim>\<open>malloc\<close> call succeeds. No configuration is rejected.
\<close>

theorem ma_runtime_new_succeeds:
  assumes "fst (malloc sizeof_ma_runtime_stub s) \<noteq> NULL"
  shows "\<exists>runtime s'. ma_runtime_new config_json s = Inr (runtime, s') \<and> runtime \<noteq> NULL \<and>
           heap s' runtime = Some (Runtime \<lparr>placeholder = 1\<rparr>)"
proof -
  obtain runtime s1 where m: "malloc sizeof_ma_runtime_stub s = (runtime, s1)"
    by (cases "malloc sizeof_ma_runtime_stub s")
  with assms have "runtime \<noteq> NULL" by simp
  with m show ?thesis by (simp add: ma_runtime_new_unfold)
qed

theorem ma_runtime_new_succeeds_witness:
  "fst (malloc sizeof_ma_runtime_stub (initial_state [16])) \<noteq> NULL \<and>
   (\<exists>runtime s'. ma_runtime_new [] (initial_state [16]) = Inr (runtime, s') \<and>
      runtime \<noteq> NULL \<and> heap s' runtime = Some (Runtime \<lparr>placeholder = 1\<rparr>))"
proof -
  have h: "fst (malloc sizeof_ma_runtime_stub (initial_state [16])) \<noteq> NULL"
    by (simp add: malloc_def initial_state_def NULL_def)
  from h ma_runtime_new_succeeds[OF h, of "[]"] show ?thesis
    by blast
qed

section \<open>The callback registration\<close>

text \<open>
  C4 (as stated, refuted). With two distinct live handles, created by two calls of
  \<^verbatim>\<open>ma_runtime_new\<close>, registering a callback on the first changes the registration
  of the second.
\<close>

theorem registration_per_handle_counterexample:
  "run [Create ''{}'', Create ''{}''] (initial_state [16, 32]) = Inr two_runtimes \<and>
   is_live_runtime two_runtimes 16 \<and> is_live_runtime two_runtimes 32 \<and> (16::nat) \<noteq> 32 \<and>
   registration (ma_set_event_callback 16 4096 8192 two_runtimes) 32 \<noteq>
     registration two_runtimes 32"
  by (simp add: ma_runtime_new_unfold malloc_def initial_state_def two_runtimes_def NULL_def
      sizeof_ma_runtime_stub_def is_live_runtime_def registration_def
      ma_set_event_callback_def)

text \<open>
  C4 (amended). The registration is one slot shared by all handles: after
  \<^verbatim>\<open>ma_set_event_callback\<close> on any handle, the registration of every handle is the
  pair just given, so a second registration, on whichever handle, replaces the first;
  the call changes nothing else.
\<close>

theorem registration_shared:
  "registration (ma_set_event_callback h callback user_data s) h' = (callback, user_data) \<and>
   registration
     (ma_set_event_callback h2 callback2 user_data2
        (ma_set_event_callback h callback user_data s)) h' = (callback2, user_data2) \<and>
   heap (ma_set_event_callback h callback user_data s) = heap s \<and>
   allocator (ma_set_event_callback h callback user_data s) = allocator s \<and>
   events (ma_set_event_callback h callback user_data s) = events s"
  by (simp add: registration_def ma_set_event_callback_def)

section \<open>Delivery of events\<close>

lemma free_events: "free p s = Inr s' \<Longrightarrow> events s' = events s"
  by (auto simp: free_def split: if_splits)

lemma ma_runtime_new_events:
  assumes "ma_runtime_new config_json s = Inr (runtime, s')"
  shows "events s' = events s"
proof -
  obtain p s1 where m: "malloc sizeof_ma_runtime_stub s = (p, s1)"
    by (cases "malloc sizeof_ma_runtime_stub s")
  from assms m have "events s' = events s1"
    by (auto simp: ma_runtime_new_unfold split: if_splits)
  with malloc_result(3)[OF m] show ?thesis by simp
qed

lemma ma_invoke_json_events:
  assumes "ma_invoke_json h req s = Inr (out, s')"
  shows "events s' = events s"
proof -
  obtain p s1 where m: "malloc 133 s = (p, s1)"
    by (cases "malloc 133 s")
  from assms m have "events s' = events s1"
    by (auto simp: ma_invoke_json_unfold split: if_splits)
  with malloc_result(3)[OF m] show ?thesis by simp
qed

lemma step_events:
  assumes "step c s = Inr s'"
  shows "events s' = events s"
proof (cases c)
  case (Create config_json)
  with assms obtain r where "ma_runtime_new config_json s = Inr (r, s')"
    by (cases "ma_runtime_new config_json s") auto
  then show ?thesis by (rule ma_runtime_new_events)
next
  case (Destroy h)
  with assms show ?thesis
    by (auto simp: ma_runtime_free_def dest: free_events split: if_splits)
next
  case (Invoke h req)
  with assms obtain out where "ma_invoke_json h req s = Inr (out, s')"
    by (cases "ma_invoke_json h req s") auto
  then show ?thesis by (rule ma_invoke_json_events)
next
  case (Set_event_callback h cb ud)
  with assms show ?thesis by (auto simp: ma_set_event_callback_def)
next
  case (Release_text p)
  with assms show ?thesis
    by (auto simp: ma_free_c_string_def dest: free_events split: if_splits)
qed

text \<open>
  C5. No sequence of calls of the five exported functions, on any handles and
  pointers, adds to the trace of callback invocations: as long as the run has not
  faulted, the trace is the one the run started with, whatever callback is registered.
\<close>

theorem callback_never_invoked:
  "run calls s = Inr s' \<Longrightarrow> events s' = events s"
proof (induction calls arbitrary: s)
  case Nil
  then show ?case by simp
next
  case (Cons c calls)
  then obtain s1 where c: "step c s = Inr s1" and rest: "run calls s1 = Inr s'"
    by (auto split: sum.splits)
  from Cons.IH[OF rest] step_events[OF c] show ?case by simp
qed

theorem callback_never_invoked_witness:
  "run host_session (initial_state [16, 64]) =
     Inr (initial_state []) \<and>
   events (initial_state []) = events (initial_state [16, 64])"
proof -
  have r: "run host_session (initial_state [16, 64]) = Inr (initial_state [])"
    by (simp add: host_session_def ma_runtime_new_unfold ma_invoke_json_unfold malloc_def
        initial_state_def NULL_def sizeof_ma_runtime_stub_def ma_set_event_callback_def
        ma_free_c_string_def ma_runtime_free_def free_def)
  from r callback_never_invoked[OF r] show ?thesis by simp
qed

section \<open>What a call of the stub depends on and changes\<close>

lemma ma_invoke_json_text:
  assumes "ma_invoke_json h req s = Inr (out, s')" and "out \<noteq> NULL"
  shows "c_string_at s' out = Some (takeWhile (\<lambda>c. c \<noteq> NUL) payload)"
proof -
  obtain p s1 where m: "malloc (strlen payload + 1) s = (p, s1)"
    by (cases "malloc (strlen payload + 1) s")
  have "p \<noteq> NULL"
    using ma_invoke_json_result(1)[OF m, of h req] assms by auto
  from ma_invoke_json_result(2)[OF m this, of h req] assms(1)
  have "out = p" and "s' = s1\<lparr>heap := (heap s1)(p \<mapsto> Chars payload)\<rparr>"
    by simp_all
  then show ?thesis by (simp only: c_string_at_payload)
qed

text \<open>
  C6. The response of \<^verbatim>\<open>ma_invoke_json\<close> depends on neither argument. Take any two
  calls, with any handles, request texts and states: when the \<^verbatim>\<open>malloc\<close> call
  succeeds in both, both return without fault a non-null response, and the two
  responses are the same text, the canned payload. From one state, two calls with
  different handles and requests return the same pointer and the same state.
\<close>

theorem ma_invoke_json_constant:
  assumes "fst (malloc (strlen payload + 1) s1) \<noteq> NULL"
    and "fst (malloc (strlen payload + 1) s2) \<noteq> NULL"
  shows "\<exists>out1 t1 out2 t2.
           ma_invoke_json h1 req1 s1 = Inr (out1, t1) \<and> out1 \<noteq> NULL \<and>
           ma_invoke_json h2 req2 s2 = Inr (out2, t2) \<and> out2 \<noteq> NULL \<and>
           c_string_at t1 out1 = Some (takeWhile (\<lambda>c. c \<noteq> NUL) payload) \<and>
           c_string_at t2 out2 = c_string_at t1 out1 \<and>
           ma_invoke_json h2 req2 s1 = ma_invoke_json h1 req1 s1"
proof -
  obtain out1 u1 where m1: "malloc (strlen payload + 1) s1 = (out1, u1)"
    by (cases "malloc (strlen payload + 1) s1")
  obtain out2 u2 where m2: "malloc (strlen payload + 1) s2 = (out2, u2)"
    by (cases "malloc (strlen payload + 1) s2")
  from assms m1 m2 have n1: "out1 \<noteq> NULL" and n2: "out2 \<noteq> NULL"
    by simp_all
  let ?t1 = "u1\<lparr>heap := (heap u1)(out1 \<mapsto> Chars payload)\<rparr>"
  let ?t2 = "u2\<lparr>heap := (heap u2)(out2 \<mapsto> Chars payload)\<rparr>"
  have r1: "ma_invoke_json h1 req1 s1 = Inr (out1, ?t1)"
    by (rule ma_invoke_json_result(2)[OF m1 n1])
  have r2: "ma_invoke_json h2 req2 s2 = Inr (out2, ?t2)"
    by (rule ma_invoke_json_result(2)[OF m2 n2])
  have same: "ma_invoke_json h2 req2 s1 = ma_invoke_json h1 req1 s1"
    by (simp only: ma_invoke_json_result(2)[OF m1 n1])
  have c1: "c_string_at ?t1 out1 = Some (takeWhile (\<lambda>c. c \<noteq> NUL) payload)"
    by (rule ma_invoke_json_text[OF r1 n1])
  have c2: "c_string_at ?t2 out2 = Some (takeWhile (\<lambda>c. c \<noteq> NUL) payload)"
    by (rule ma_invoke_json_text[OF r2 n2])
  from c1 c2 have eq: "c_string_at ?t2 out2 = c_string_at ?t1 out1"
    by simp
  from r1 n1 r2 n2 c1 eq same show ?thesis
    by blast
qed

theorem ma_invoke_json_constant_witness:
  "fst (malloc (strlen payload + 1) (registered_runtime [64])) \<noteq> NULL \<and>
   fst (malloc (strlen payload + 1) (initial_state [128])) \<noteq> NULL \<and>
   (\<exists>out1 t1 out2 t2.
      ma_invoke_json 16 ''ping'' (registered_runtime [64]) = Inr (out1, t1) \<and> out1 \<noteq> NULL \<and>
      ma_invoke_json NULL ''not json'' (initial_state [128]) = Inr (out2, t2) \<and>
      out2 \<noteq> NULL \<and>
      c_string_at t1 out1 = Some (takeWhile (\<lambda>c. c \<noteq> NUL) payload) \<and>
      c_string_at t2 out2 = c_string_at t1 out1 \<and>
      ma_invoke_json NULL ''not json'' (registered_runtime [64]) =
        ma_invoke_json 16 ''ping'' (registered_runtime [64]))"
proof -
  have a: "fst (malloc (strlen payload + 1) (registered_runtime [64])) \<noteq> NULL"
    by (simp add: malloc_def registered_runtime_def NULL_def)
  have b: "fst (malloc (strlen payload + 1) (initial_state [128])) \<noteq> NULL"
    by (simp add: malloc_def initial_state_def NULL_def)
  from a b ma_invoke_json_constant[OF a b, of 16 "''ping''" NULL "''not json''"]
  show ?thesis by blast
qed

text \<open>
  C9. \<^verbatim>\<open>ma_invoke_json\<close> returns without fault and leaves \<^verbatim>\<open>g_callback\<close>,
  \<^verbatim>\<open>g_user_data\<close>, the trace of events and the content of every block that was live
  before the call, the handle's among them, as they were. When it returns null the
  whole heap is unchanged.
\<close>

theorem ma_invoke_json_frame:
  "\<exists>out s'. ma_invoke_json runtime_handle request_json s = Inr (out, s') \<and>
     g_callback s' = g_callback s \<and> g_user_data s' = g_user_data s \<and>
     events s' = events s \<and>
     (\<forall>p. heap s p \<noteq> None \<longrightarrow> heap s' p = heap s p) \<and>
     (out = NULL \<longrightarrow> heap s' = heap s)"
proof -
  obtain out s1 where m: "malloc (strlen payload + 1) s = (out, s1)"
    by (cases "malloc (strlen payload + 1) s")
  note g = malloc_result(1-3)[OF m]
  show ?thesis
  proof (cases "out = NULL")
    case True
    with ma_invoke_json_result(1)[OF m, of runtime_handle request_json]
      malloc_result(4)[OF m] g
    show ?thesis by simp
  next
    case False
    from malloc_result(5)[OF m False]
    have fresh: "heap s out = None" and h1: "heap s1 = (heap s)(out \<mapsto> Raw (strlen payload + 1))"
      by simp_all
    let ?s' = "s1\<lparr>heap := (heap s1)(out \<mapsto> Chars payload)\<rparr>"
    have "\<forall>p. heap s p \<noteq> None \<longrightarrow> heap ?s' p = heap s p"
      using fresh h1 by auto
    with ma_invoke_json_result(2)[OF m False, of runtime_handle request_json] g False
    show ?thesis by simp
  qed
qed

theorem ma_invoke_json_frame_witness:
  "heap (registered_runtime [64]) 16 \<noteq> None \<and>
   (\<exists>out s'. ma_invoke_json 16 ''{}'' (registered_runtime [64]) = Inr (out, s') \<and>
      out \<noteq> NULL \<and>
      heap s' 16 = heap (registered_runtime [64]) 16 \<and>
      g_callback s' = 4096 \<and> g_user_data s' = 8192) \<and>
   (\<exists>s'. ma_invoke_json 16 ''{}'' (registered_runtime []) = Inr (NULL, s') \<and>
      heap s' = heap (registered_runtime []) \<and>
      g_callback s' = 4096 \<and> g_user_data s' = 8192)"
proof -
  have live: "heap (registered_runtime [64]) 16 \<noteq> None"
    by (simp add: registered_runtime_def)
  have ok: "fst (projr (ma_invoke_json 16 ''{}'' (registered_runtime [64]))) \<noteq> NULL"
    by (simp add: ma_invoke_json_unfold malloc_def registered_runtime_def NULL_def)
  have refused: "fst (projr (ma_invoke_json 16 ''{}'' (registered_runtime []))) = NULL"
    by (simp add: ma_invoke_json_unfold malloc_def registered_runtime_def NULL_def)
  have g: "g_callback (registered_runtime [64]) = 4096" "g_user_data (registered_runtime [64]) = 8192"
    "g_callback (registered_runtime []) = 4096" "g_user_data (registered_runtime []) = 8192"
    by (simp_all add: registered_runtime_def)
  from ma_invoke_json_frame[of 16 "''{}''" "registered_runtime [64]"] ok live g
  have first: "\<exists>out s'. ma_invoke_json 16 ''{}'' (registered_runtime [64]) = Inr (out, s') \<and>
      out \<noteq> NULL \<and> heap s' 16 = heap (registered_runtime [64]) 16 \<and>
      g_callback s' = 4096 \<and> g_user_data s' = 8192"
    by auto
  from ma_invoke_json_frame[of 16 "''{}''" "registered_runtime []"] refused g
  have second: "\<exists>s'. ma_invoke_json 16 ''{}'' (registered_runtime []) = Inr (NULL, s') \<and>
      heap s' = heap (registered_runtime []) \<and> g_callback s' = 4096 \<and> g_user_data s' = 8192"
    by auto
  from live first second show ?thesis by blast
qed

text \<open>
  C10. Neither \<^verbatim>\<open>ma_invoke_json\<close> nor \<^verbatim>\<open>ma_set_event_callback\<close> depends on its
  handle argument: with any two handle values, null or dangling ones included, each
  returns the same result and the same state. In particular \<^verbatim>\<open>ma_invoke_json\<close> with
  a null handle returns without fault.
\<close>

theorem handle_never_read:
  "ma_invoke_json h request_json s = ma_invoke_json h' request_json s \<and>
   ma_set_event_callback h callback user_data s =
     ma_set_event_callback h' callback user_data s \<and>
   (\<exists>r. ma_invoke_json NULL request_json s = Inr r)"
proof -
  have "\<exists>r. ma_invoke_json NULL request_json s = Inr r"
    by (cases "malloc 133 s") (simp add: ma_invoke_json_unfold)
  then show ?thesis
    by (simp add: ma_invoke_json_def ma_set_event_callback_def)
qed

section \<open>Releasing the null pointer\<close>

text \<open>
  C7. \<^verbatim>\<open>ma_runtime_free\<close> called with a null handle is a no-op: it does not fault,
  releases nothing and returns the state it was given.
\<close>

theorem ma_runtime_free_null: "ma_runtime_free NULL s = Inr s"
  by (simp add: ma_runtime_free_def)

text \<open>
  C8. \<^verbatim>\<open>ma_free_c_string\<close> called with a null pointer is a no-op: it does not fault,
  releases nothing and returns the state it was given.
\<close>

theorem ma_free_c_string_null: "ma_free_c_string NULL s = Inr s"
  by (simp add: ma_free_c_string_def)

end
